theory Spec2Isabelle
  imports Main "HOL-Library.Sublist"
begin

section \<open>Athena client: request layer and client construction\<close>

text \<open>
  A shallow embedding of \<^verbatim>\<open>src/index.ts\<close> (\<^verbatim>\<open>createClient\<close>) and of
  \<^verbatim>\<open>src/lib/request.ts\<close> (\<^verbatim>\<open>AthenaRequest\<close>, \<^verbatim>\<open>isRetryException\<close>,
  \<^verbatim>\<open>canRetry\<close>).

  Conventions of the embedding:
  \<^item> an optional property (\<^verbatim>\<open>field?: T\<close>, or a value that the code itself compares with
    \<^verbatim>\<open>undefined\<close>) is a \<open>T option\<close>, \<open>None\<close> standing for \<^verbatim>\<open>undefined\<close>;
  \<^item> a JavaScript \<^verbatim>\<open>number\<close> of the configuration (a wait in milliseconds, a retry
    bound) is an \<open>int\<close>; the retry counter, which starts at 0 and is only incremented,
    is a \<open>nat\<close> (fractions and NaN are outside the model); a result of \<^verbatim>\<open>Math.pow\<close>
    that a double cannot be relied on to hold exactly is left undetermined;
  \<^item> a string is a \<open>string\<close>; the pattern \<^verbatim>\<open>s3://\<close> and the separator \<^verbatim>\<open>/\<close> are
    ASCII, and the string operations used treat every other character alike;
  \<^item> a thrown or rejected error object is a value of type \<open>err\<close>;
  \<^item> a promise is the state it finally settles in: \<open>Pending\<close> when nothing ever settles it.
\<close>

subsection \<open>JavaScript operators used by the source\<close>

text \<open>\<^verbatim>\<open>a || b\<close> on an optional number: \<^verbatim>\<open>undefined\<close> and \<^verbatim>\<open>0\<close> are falsy.\<close>

definition or_number :: "int option \<Rightarrow> int \<Rightarrow> int" where
  "or_number a b = (case a of None \<Rightarrow> b | Some x \<Rightarrow> if x = 0 then b else x)"

text \<open>\<^verbatim>\<open>a || b\<close> on an optional string: \<^verbatim>\<open>undefined\<close> and the empty string are falsy.\<close>

definition or_string :: "string option \<Rightarrow> string \<Rightarrow> string" where
  "or_string a b = (case a of None \<Rightarrow> b | Some s \<Rightarrow> if s = [] then b else s)"

text \<open>Truthiness of an optional string, as tested by \<^verbatim>\<open>a && {...}\<close>.\<close>

definition truthy :: "string option \<Rightarrow> bool" where
  "truthy a = (case a of None \<Rightarrow> False | Some s \<Rightarrow> s \<noteq> [])"

subsection \<open>Data model\<close>

text \<open>
  \<^verbatim>\<open>interface AthenaRequestConfig\<close>. \<^verbatim>\<open>bucketUri\<close> is declared as a required string,
  but \<^verbatim>\<open>createClient\<close> tests it against \<^verbatim>\<open>undefined\<close>, so it is optional here.
  \<^verbatim>\<open>AthenaClientConfig\<close> (declared in \<^verbatim>\<open>lib/client\<close>) extends this interface; the
  record's extension slot stands for its further fields.
\<close>

record AthenaRequestConfig =
  bucketUri :: "string option"
  baseRetryWait :: "int option"
  retryWaitMax :: "int option"
  retryCountMax :: "int option"
  database :: "string option"
  encryptionOption :: "string option"
  encryptionKmsKey :: "string option"
  workGroup :: "string option"

text \<open>\<^verbatim>\<open>interface AwsConfig\<close>; \<^verbatim>\<open>region\<close> is tested against \<^verbatim>\<open>undefined\<close> as well.\<close>

record AwsConfig =
  region :: "string option"
  accessKeyId :: "string option"
  secretAccessKey :: "string option"

text \<open>
  An error object: whether it is an instance of \<^verbatim>\<open>TooManyRequestsException\<close>, and its
  \<^verbatim>\<open>message\<close>. \<^verbatim>\<open>new Error(msg)\<close> is \<open>Err False msg\<close>.
\<close>

datatype err = Err (tooManyRequests: bool) (message: string)

definition defaultBaseRetryWait :: int where
  "defaultBaseRetryWait = 200"

definition defaultRetryWaitMax :: int where
  "defaultRetryWaitMax = 10000"

definition defaultRetryCountMax :: int where
  "defaultRetryCountMax = 10"

subsection \<open>Retry eligibility\<close>

definition isRetryException :: "err \<Rightarrow> bool" where
  "isRetryException e \<longleftrightarrow>
     tooManyRequests e \<or> message e = ''Query exhausted resources at this scale factor''"

definition canRetry :: "nat \<Rightarrow> 'm AthenaRequestConfig_scheme \<Rightarrow> bool" where
  "canRetry retryCount config \<longleftrightarrow>
     int retryCount < or_number (retryCountMax config) defaultRetryCountMax"

subsection \<open>The waits computed in the three catch blocks\<close>

text \<open>
  \<^verbatim>\<open>startQuery\<close>:
  \<^verbatim>\<open>let wait = (config.baseRetryWait || defaultBaseRetryWait) * Math.pow(2, retryCount++)\<close>,
  then \<^verbatim>\<open>wait = Math.min(wait, config.retryWaitMax || defaultRetryWaitMax)\<close>.
  The argument is the value of \<^verbatim>\<open>retryCount\<close> before the post-increment.
\<close>

definition startQuery_wait :: "'m AthenaRequestConfig_scheme \<Rightarrow> nat \<Rightarrow> int" where
  "startQuery_wait config retryCount =
     (let wait = or_number (baseRetryWait config) defaultBaseRetryWait * 2 ^ retryCount
      in min wait (or_number (retryWaitMax config) defaultRetryWaitMax))"

text \<open>
  The delay handed to \<^verbatim>\<open>setTimeout\<close>, as far as the model follows it: an integer that
  the double holds exactly, or a double that the model does not compute (a rounded or an
  infinite result).
\<close>

datatype number = Num int | Imprecise

text \<open>
  \<^verbatim>\<open>Math.pow\<close> on an integer base and a natural exponent. The result is a double: it is
  the exact power as long as that is a safe integer (of magnitude below \<open>2 ^ 53\<close>); a
  larger power is rounded, or infinite, and is left undetermined.
\<close>

definition Math_pow :: "int \<Rightarrow> nat \<Rightarrow> number" where
  "Math_pow x y = (if \<bar>x ^ y\<bar> < 2 ^ 53 then Num (x ^ y) else Imprecise)"

text \<open>
  \<^verbatim>\<open>stopQuery\<close> and \<^verbatim>\<open>getQueryExecution\<close>:
  \<^verbatim>\<open>const wait = Math.pow(config.baseRetryWait || defaultBaseRetryWait, retryCount++)\<close>.
\<close>

definition stopQuery_wait :: "'m AthenaRequestConfig_scheme \<Rightarrow> nat \<Rightarrow> number" where
  "stopQuery_wait config retryCount =
     Math_pow (or_number (baseRetryWait config) defaultBaseRetryWait) retryCount"

definition getQueryExecution_wait :: "'m AthenaRequestConfig_scheme \<Rightarrow> nat \<Rightarrow> number" where
  "getQueryExecution_wait config retryCount =
     Math_pow (or_number (baseRetryWait config) defaultBaseRetryWait) retryCount"

subsection \<open>The remote service\<close>

record EncryptionConfiguration =
  EncryptionOption :: string
  KmsKey :: "string option"

record ResultConfiguration =
  OutputLocation :: "string option"
  EncryptionConfig :: "EncryptionConfiguration option"

record QueryExecutionContext =
  Database :: string

record StartQueryExecutionInput =
  QueryString :: string
  ResultConfig :: ResultConfiguration
  QueryContext :: QueryExecutionContext
  WorkGroup :: string

datatype command =
    StartQueryExecutionCommand StartQueryExecutionInput
  | StopQueryExecutionCommand string
  | GetQueryExecutionCommand string

record QueryExecutionStatus =
  State :: "string option"
  StateChangeReason :: "string option"

record QueryExecution =
  Status :: "QueryExecutionStatus option"

text \<open>The object a successful \<^verbatim>\<open>athena.send\<close> resolves with; absent properties read as \<^verbatim>\<open>undefined\<close>.\<close>

record send_output =
  QueryExecutionId :: "string option"
  QueryExecutionData :: "QueryExecution option"

text \<open>One \<^verbatim>\<open>await this.athena.send(command)\<close>: the awaited promise fulfils or rejects.\<close>

datatype response = Ok send_output | Fail err

text \<open>
  The service as the request layer sees it: the answer to a command, given how many calls
  of the same outer operation came before it.
\<close>

type_synonym athena = "command \<Rightarrow> nat \<Rightarrow> response"

subsection \<open>Promises\<close>

datatype 'a settled = Pending | Fulfilled 'a | Rejected err

text \<open>The \<^verbatim>\<open>resolve\<close> and \<^verbatim>\<open>reject\<close> functions handed to a promise executor: the first call wins.\<close>

definition resolve :: "'a \<Rightarrow> 'a settled \<Rightarrow> 'a settled" where
  "resolve v p = (case p of Pending \<Rightarrow> Fulfilled v | _ \<Rightarrow> p)"

definition reject :: "err \<Rightarrow> 'a settled \<Rightarrow> 'a settled" where
  "reject e p = (case p of Pending \<Rightarrow> Rejected e | _ \<Rightarrow> p)"

text \<open>
  How one invocation of an \<^verbatim>\<open>async\<close> \<^verbatim>\<open>loopFunc\<close> ends: it returns a value, it
  returns the handle of the timer it scheduled with \<^verbatim>\<open>setTimeout(loopFunc, wait)\<close>, or it
  throws. The promise of the invocation fulfils in the first two cases and rejects in the
  third.
\<close>

datatype 'a invocation = Returned 'a | Timer number | Threw err

text \<open>
  What a call of \<^verbatim>\<open>startQuery\<close>, \<^verbatim>\<open>stopQuery\<close> or \<^verbatim>\<open>getQueryExecution\<close> leaves behind:
  the final state of the promise it returned, and the invocations of \<^verbatim>\<open>loopFunc\<close> in
  order (each one made exactly one remote call).
\<close>

record 'a run =
  promise :: "'a settled"
  invocations :: "'a invocation list"

subsection \<open>\<^verbatim>\<open>startQuery\<close>\<close>

text \<open>The \<^verbatim>\<open>params\<close> object built at the start of the executor.\<close>

definition startQuery_params :: "string \<Rightarrow> 'm AthenaRequestConfig_scheme \<Rightarrow> StartQueryExecutionInput" where
  "startQuery_params query config =
     \<lparr> QueryString = query,
       ResultConfig =
         \<lparr> OutputLocation = bucketUri config,
           EncryptionConfig =
             (case encryptionOption config of
                None \<Rightarrow> None
              | Some opt \<Rightarrow>
                  if opt = [] then None
                  else Some \<lparr> EncryptionOption = opt,
                              KmsKey = (if truthy (encryptionKmsKey config)
                                        then encryptionKmsKey config else None) \<rparr>) \<rparr>,
       QueryContext = \<lparr> Database = or_string (database config) ''default'' \<rparr>,
       WorkGroup = or_string (workGroup config) ''primary'' \<rparr>"

text \<open>
  \<^verbatim>\<open>loopFunc\<close> of \<^verbatim>\<open>startQuery\<close>, from the invocation that finds \<^verbatim>\<open>retryCount\<close> at the
  given value on. \<open>send\<close> is \<^verbatim>\<open>this.athena.send\<close> applied to the command; its second
  argument counts the calls before this one, which is \<^verbatim>\<open>retryCount\<close>, since every
  invocation makes one call and every retry increments the counter once.
\<close>

function startQuery_loopFunc ::
  "'m AthenaRequestConfig_scheme \<Rightarrow> (nat \<Rightarrow> response) \<Rightarrow> nat \<Rightarrow> string option invocation list" where
  "startQuery_loopFunc config send retryCount =
     (case send retryCount of
        Ok data \<Rightarrow> [Returned (QueryExecutionId data)]
      | Fail e \<Rightarrow>
          if isRetryException e \<and> canRetry retryCount config
          then Timer (Num (startQuery_wait config retryCount))
                 # startQuery_loopFunc config send (retryCount + 1)
          else [Threw e])"
  by pat_completeness auto
termination
  by (relation "measure (\<lambda>(config, send, retryCount).
        nat (or_number (retryCountMax config) defaultRetryCountMax) - retryCount)")
     (auto simp: canRetry_def)

text \<open>
  The executor passed to \<^verbatim>\<open>new Promise\<close> builds \<^verbatim>\<open>params\<close>, defines \<^verbatim>\<open>loopFunc\<close> and
  calls it once. It mentions neither \<^verbatim>\<open>resolve\<close> nor \<^verbatim>\<open>reject\<close>, and the promises of the
  \<^verbatim>\<open>loopFunc\<close> invocations are dropped, so the promise it was passed to keeps its initial
  state.
\<close>

definition startQuery :: "athena \<Rightarrow> string \<Rightarrow> 'm AthenaRequestConfig_scheme \<Rightarrow> string option run" where
  "startQuery athena query config =
     (let params = startQuery_params query config
      in \<lparr> promise = Pending,
           invocations =
             startQuery_loopFunc config (athena (StartQueryExecutionCommand params)) 0 \<rparr>)"

declare startQuery_loopFunc.simps [simp del]

subsection \<open>\<^verbatim>\<open>stopQuery\<close>\<close>

function stopQuery_loopFunc ::
  "'m AthenaRequestConfig_scheme \<Rightarrow> (nat \<Rightarrow> response) \<Rightarrow> nat \<Rightarrow> unit invocation list" where
  "stopQuery_loopFunc config send retryCount =
     (case send retryCount of
        Ok data \<Rightarrow> [Returned ()]
      | Fail e \<Rightarrow>
          if isRetryException e \<and> canRetry retryCount config
          then Timer (stopQuery_wait config retryCount)
                 # stopQuery_loopFunc config send (retryCount + 1)
          else [Threw e])"
  by pat_completeness auto
termination
  by (relation "measure (\<lambda>(config, send, retryCount).
        nat (or_number (retryCountMax config) defaultRetryCountMax) - retryCount)")
     (auto simp: canRetry_def)

declare stopQuery_loopFunc.simps [simp del]

definition stopQuery :: "athena \<Rightarrow> string \<Rightarrow> 'm AthenaRequestConfig_scheme \<Rightarrow> unit run" where
  "stopQuery athena queryId config =
     \<lparr> promise = Pending,
       invocations = stopQuery_loopFunc config (athena (StopQueryExecutionCommand queryId)) 0 \<rparr>"

subsection \<open>\<^verbatim>\<open>getQueryExecution\<close>\<close>

function getQueryExecution_loopFunc ::
  "'m AthenaRequestConfig_scheme \<Rightarrow> (nat \<Rightarrow> response) \<Rightarrow> nat
     \<Rightarrow> QueryExecution option invocation list" where
  "getQueryExecution_loopFunc config send retryCount =
     (case send retryCount of
        Ok data \<Rightarrow> [Returned (QueryExecutionData data)]
      | Fail e \<Rightarrow>
          if isRetryException e \<and> canRetry retryCount config
          then Timer (getQueryExecution_wait config retryCount)
                 # getQueryExecution_loopFunc config send (retryCount + 1)
          else [Threw e])"
  by pat_completeness auto
termination
  by (relation "measure (\<lambda>(config, send, retryCount).
        nat (or_number (retryCountMax config) defaultRetryCountMax) - retryCount)")
     (auto simp: canRetry_def)

declare getQueryExecution_loopFunc.simps [simp del]

definition getQueryExecution ::
  "athena \<Rightarrow> string \<Rightarrow> 'm AthenaRequestConfig_scheme \<Rightarrow> QueryExecution option run" where
  "getQueryExecution athena queryId config =
     \<lparr> promise = Pending,
       invocations =
         getQueryExecution_loopFunc config (athena (GetQueryExecutionCommand queryId)) 0 \<rparr>"

subsection \<open>\<^verbatim>\<open>checkQuery\<close>\<close>

text \<open>
  A \<^verbatim>\<open>TypeError\<close> raised by reading a property of \<^verbatim>\<open>undefined\<close>; the text of its message
  depends on the engine and is left abstract.
\<close>

definition TypeError :: err where
  "TypeError = Err False ''TypeError''"

text \<open>A value inside a template literal: \<^verbatim>\<open>undefined\<close> prints as its name.\<close>

definition template :: "string option \<Rightarrow> string" where
  "template v = (case v of None \<Rightarrow> ''undefined'' | Some s \<Rightarrow> s)"

text \<open>
  The \<^verbatim>\<open>switch (state)\<close> of the \<^verbatim>\<open>then\<close> callback: the values of \<^verbatim>\<open>isSucceed\<close> and
  \<^verbatim>\<open>error\<close> after it.
\<close>

definition checkQuery_switch :: "QueryExecutionStatus \<Rightarrow> bool \<times> err option" where
  "checkQuery_switch status =
     (let state = State status in
      if state = Some ''QUEUED'' \<or> state = Some ''RUNNING'' then (False, None)
      else if state = Some ''SUCCEEDED'' then (True, None)
      else if state = Some ''FAILED'' then
        (let errMsg = or_string (StateChangeReason status) ''FAILED: Execution Error''
         in (False, Some (Err False errMsg)))
      else if state = Some ''CANCELLED'' then
        (False, Some (Err False ''FAILED: Query CANCELLED''))
      else (False, Some (Err False (''FAILED: UnKnown State '' @ template state))))"

text \<open>
  The \<^verbatim>\<open>then\<close> callback, acting on the promise of \<^verbatim>\<open>checkQuery\<close>. Reading
  \<^verbatim>\<open>queryExecution.Status.State\<close> throws when \<^verbatim>\<open>queryExecution\<close> or its \<^verbatim>\<open>Status\<close> is
  \<^verbatim>\<open>undefined\<close>; the \<^verbatim>\<open>catch\<close> callback then rejects with what was thrown.
\<close>

definition checkQuery_then :: "QueryExecution option \<Rightarrow> bool settled \<Rightarrow> bool settled" where
  "checkQuery_then queryExecution p =
     (case queryExecution of
        None \<Rightarrow> reject TypeError p
      | Some qe \<Rightarrow>
          (case Status qe of
             None \<Rightarrow> reject TypeError p
           | Some status \<Rightarrow>
               (case checkQuery_switch status of
                  (isSucceed, Some error) \<Rightarrow> reject error p
                | (isSucceed, None) \<Rightarrow> resolve isSucceed p)))"

text \<open>
  \<^verbatim>\<open>checkQuery\<close>, given the final state of the promise that \<^verbatim>\<open>this.getQueryExecution\<close>
  returned: neither callback runs while that promise is pending.
\<close>

definition checkQuery_on :: "QueryExecution option settled \<Rightarrow> bool settled" where
  "checkQuery_on metadata =
     (case metadata of
        Pending \<Rightarrow> Pending
      | Fulfilled queryExecution \<Rightarrow> checkQuery_then queryExecution Pending
      | Rejected e \<Rightarrow> reject e Pending)"

definition checkQuery :: "athena \<Rightarrow> string \<Rightarrow> 'm AthenaRequestConfig_scheme \<Rightarrow> bool settled" where
  "checkQuery athena queryId config =
     checkQuery_on (promise (getQueryExecution athena queryId config))"

subsection \<open>\<^verbatim>\<open>getResultsStream\<close>\<close>

text \<open>
  \<^verbatim>\<open>String.prototype.replace\<close> with a string pattern: only the first occurrence is
  replaced. (The replacement used by the source is empty, so the \<^verbatim>\<open>$\<close> patterns of a
  replacement string play no part.)
\<close>

fun replace :: "string \<Rightarrow> string \<Rightarrow> string \<Rightarrow> string" where
  "replace pat rep [] = (if pat = [] then rep else [])"
| "replace pat rep (c # cs) =
     (if prefix pat (c # cs) then rep @ drop (length pat) (c # cs)
      else c # replace pat rep cs)"

text \<open>\<^verbatim>\<open>String.prototype.split\<close> with a separator of one character.\<close>

fun split :: "char \<Rightarrow> string \<Rightarrow> string list" where
  "split sep [] = [[]]"
| "split sep (c # cs) =
     (if c = sep then [] # split sep cs
      else (case split sep cs of
              [] \<Rightarrow> [[c]]
            | w # ws \<Rightarrow> (c # w) # ws))"

text \<open>\<^verbatim>\<open>Array.prototype.join\<close>.\<close>

fun join :: "string \<Rightarrow> string list \<Rightarrow> string" where
  "join sep [] = []"
| "join sep [w] = w"
| "join sep (w # v # ws) = w @ sep @ join sep (v # ws)"

record GetObjectInput =
  Bucket :: string
  Key :: string

text \<open>
  The first three statements of \<^verbatim>\<open>getResultsStream\<close>. \<^verbatim>\<open>arr.shift()\<close> removes and
  returns the first element, or returns \<^verbatim>\<open>undefined\<close> on an empty array.
\<close>

definition getResultsStream_input :: "string \<Rightarrow> GetObjectInput" where
  "getResultsStream_input s3Uri =
     (let arr = split (CHR ''/'') (replace ''s3://'' [] s3Uri);
          shifted = (case arr of [] \<Rightarrow> None | w # ws \<Rightarrow> Some w);
          arr' = (case arr of [] \<Rightarrow> [] | w # ws \<Rightarrow> ws);
          bucket = or_string shifted [];
          key = join ''/'' arr'
      in \<lparr> Bucket = bucket, Key = key \<rparr>)"

text \<open>
  The whole function: \<open>s3\<close> answers the \<^verbatim>\<open>GetObjectCommand\<close> with an error or with a
  response whose \<^verbatim>\<open>Body\<close>, when present, holds the bytes of the object.
\<close>

definition getResultsStream ::
  "(GetObjectInput \<Rightarrow> err + nat list option) \<Rightarrow> string \<Rightarrow> nat list settled" where
  "getResultsStream s3 s3Uri =
     (case s3 (getResultsStream_input s3Uri) of
        Inl e \<Rightarrow> Rejected e
      | Inr None \<Rightarrow> Rejected TypeError
      | Inr (Some bytes) \<Rightarrow> Fulfilled bytes)"

subsection \<open>\<^verbatim>\<open>createClient\<close>\<close>

text \<open>The objects that \<^verbatim>\<open>createClient\<close> constructs, in order.\<close>

datatype 'm constructed =
    New_AwsAthenaClient AwsConfig string
  | New_S3 AwsConfig string
  | New_AthenaRequest
  | New_AthenaClient "'m AthenaRequestConfig_scheme"

text \<open>
  \<^verbatim>\<open>createClient\<close>: the thrown error or the client, and the objects constructed on the way.
  The class \<^verbatim>\<open>AthenaClient\<close> is declared in \<^verbatim>\<open>lib/client\<close>; its constructor is the
  parameter \<open>newAthenaClient\<close>, applied to the two configurations (the request object
  that it receives is built from \<^verbatim>\<open>awsConfig\<close> alone).
\<close>

definition createClient ::
  "(AwsConfig \<Rightarrow> 'm AthenaRequestConfig_scheme \<Rightarrow> 'c)
     \<Rightarrow> 'm AthenaRequestConfig_scheme option \<Rightarrow> AwsConfig option
     \<Rightarrow> (err + 'c) \<times> 'm constructed list" where
  "createClient newAthenaClient clientConfig awsConfig =
     (let bucket_uri_required = (Inl (Err False ''bucket uri required''), []);
          region_required = (Inl (Err False ''region required''), [])
      in case clientConfig of
           None \<Rightarrow> bucket_uri_required
         | Some cc \<Rightarrow>
             (case bucketUri cc of
                None \<Rightarrow> bucket_uri_required
              | Some uri \<Rightarrow>
                  if length uri = 0 then bucket_uri_required
                  else
                    (case awsConfig of
                       None \<Rightarrow> region_required
                     | Some ac \<Rightarrow>
                         (case region ac of
                            None \<Rightarrow> region_required
                          | Some r \<Rightarrow>
                              if length r = 0 then region_required
                              else
                                (Inr (newAthenaClient ac cc),
                                 [New_AwsAthenaClient ac ''2017-05-18'',
                                  New_S3 ac ''2006-03-01'',
                                  New_AthenaRequest,
                                  New_AthenaClient cc])))))"

subsection \<open>Inputs used in the examples\<close>

text \<open>A configuration that sets the output location and nothing else.\<close>

definition bucketOnly :: AthenaRequestConfig where
  "bucketOnly =
     \<lparr> bucketUri = Some ''s3://results/out'', baseRetryWait = None, retryWaitMax = None,
       retryCountMax = None, database = None, encryptionOption = None,
       encryptionKmsKey = None, workGroup = None \<rparr>"

definition accepted :: send_output where
  "accepted = \<lparr> QueryExecutionId = Some ''q-1'', QueryExecutionData = None \<rparr>"

text \<open>A service that answers every call successfully.\<close>

definition succeeding :: athena where
  "succeeding command calls = Ok accepted"

text \<open>A service that refuses every call with an error that is not retryable.\<close>

definition denying :: athena where
  "denying command calls = Fail (Err False ''Access denied'')"

text \<open>A service that throttles the first \<open>k\<close> calls of an operation and then answers.\<close>

definition throttling :: "nat \<Rightarrow> athena" where
  "throttling k command calls =
     (if calls < k then Fail (Err True ''Rate exceeded'') else Ok accepted)"

text \<open>A service that answers every call with metadata of the given state and reason.\<close>

definition reporting :: "string \<Rightarrow> string option \<Rightarrow> athena" where
  "reporting state reason command calls =
     Ok \<lparr> QueryExecutionId = None,
          QueryExecutionData =
            Some \<lparr> Status = Some \<lparr> State = Some state, StateChangeReason = reason \<rparr> \<rparr> \<rparr>"

subsection \<open>Vocabulary of the properties\<close>

text \<open>
  The bound of the specification: \<open>maxAttempts\<close> is the configured number of attempts,
  and 10 when the configuration does not specify one.
\<close>

definition maxAttempts :: "'m AthenaRequestConfig_scheme \<Rightarrow> int" where
  "maxAttempts config = (case retryCountMax config of None \<Rightarrow> 10 | Some m \<Rightarrow> m)"

text \<open>
  The bound of the source: the right-hand side of the comparison in \<^verbatim>\<open>canRetry\<close>,
  \<^verbatim>\<open>config.retryCountMax || defaultRetryCountMax\<close>.
\<close>

definition retryLimit :: "'m AthenaRequestConfig_scheme \<Rightarrow> int" where
  "retryLimit config = or_number (retryCountMax config) defaultRetryCountMax"

text \<open>
  The waits that the retry code works with, as the source computes them on each use:
  \<^verbatim>\<open>config.baseRetryWait || defaultBaseRetryWait\<close> and
  \<^verbatim>\<open>config.retryWaitMax || defaultRetryWaitMax\<close> (in the catch blocks).
\<close>

definition baseWaitMs :: "'m AthenaRequestConfig_scheme \<Rightarrow> int" where
  "baseWaitMs config = or_number (baseRetryWait config) defaultBaseRetryWait"

definition maxWaitMs :: "'m AthenaRequestConfig_scheme \<Rightarrow> int" where
  "maxWaitMs config = or_number (retryWaitMax config) defaultRetryWaitMax"

text \<open>A required string that is \<^verbatim>\<open>undefined\<close> or of length 0.\<close>

definition absent_or_empty :: "string option \<Rightarrow> bool" where
  "absent_or_empty v \<longleftrightarrow> v = None \<or> v = Some []"

section \<open>Properties\<close>

subsection \<open>Splitting and joining\<close>

lemma split_not_Nil: "split sep s \<noteq> []"
  by (induction s) (auto split: list.splits)

lemma hd_split: "hd (split sep s) = takeWhile (\<lambda>c. c \<noteq> sep) s"
  by (induction s) (auto split: list.splits simp: split_not_Nil)

lemma join_split: "join [sep] (split sep s) = s"
proof (induction s)
  case Nil
  show ?case by simp
next
  case (Cons c cs)
  obtain w ws where ws: "split sep cs = w # ws"
    using split_not_Nil [of sep cs] by (cases "split sep cs") auto
  show ?case
  proof (cases "c = sep")
    case True
    with Cons ws show ?thesis by simp
  next
    case False
    with Cons ws show ?thesis by (cases ws) auto
  qed
qed

lemma join_tl_split:
  "join [sep] (tl (split sep s)) = drop 1 (dropWhile (\<lambda>c. c \<noteq> sep) s)"
proof (induction s)
  case Nil
  show ?case by simp
next
  case (Cons c cs)
  obtain w ws where ws: "split sep cs = w # ws"
    using split_not_Nil [of sep cs] by (cases "split sep cs") auto
  show ?case
  proof (cases "c = sep")
    case True
    then show ?thesis using join_split [of sep cs] by simp
  next
    case False
    with Cons ws show ?thesis by simp
  qed
qed

text \<open>
  The request built by \<^verbatim>\<open>getResultsStream\<close>, in terms of the string left by the
  replacement: the bucket is what precedes its first \<^verbatim>\<open>/\<close>, the key what follows it.
\<close>

lemma getResultsStream_input_eq:
  "getResultsStream_input s3Uri =
     \<lparr> Bucket = takeWhile (\<lambda>c. c \<noteq> CHR ''/'') (replace ''s3://'' [] s3Uri),
       Key = drop 1 (dropWhile (\<lambda>c. c \<noteq> CHR ''/'') (replace ''s3://'' [] s3Uri)) \<rparr>"
proof -
  let ?r = "replace ''s3://'' [] s3Uri"
  obtain w ws where ws: "split CHR ''/'' ?r = w # ws"
    using split_not_Nil [of "CHR ''/''" ?r] by (cases "split CHR ''/'' ?r") auto
  have w: "w = takeWhile (\<lambda>c. c \<noteq> CHR ''/'') ?r"
    using hd_split [of "CHR ''/''" ?r] ws by simp
  have k: "join ''/'' ws = drop 1 (dropWhile (\<lambda>c. c \<noteq> CHR ''/'') ?r)"
    using join_tl_split [of "CHR ''/''" ?r] ws by simp
  show ?thesis
    unfolding getResultsStream_input_def Let_def ws
    using w k by (simp add: or_string_def)
qed

subsection \<open>Replacing the first occurrence\<close>

lemma replace_prefix: "replace pat rep (pat @ rest) = rep @ rest"
proof (cases "pat @ rest")
  case Nil
  then show ?thesis by simp
next
  case (Cons c cs)
  have p: "prefix pat (c # cs)"
    using Cons by (metis prefixI)
  have d: "drop (length pat) (c # cs) = rest"
    using Cons by (metis append_eq_conv_conj)
  show ?thesis
    unfolding Cons using p d by simp
qed

lemma replace_absent:
  "\<not> (\<exists>a b. s = a @ pat @ b) \<Longrightarrow> replace pat rep s = s"
proof (induction s)
  case Nil
  then show ?case by auto
next
  case (Cons c cs)
  have np: "\<not> prefix pat (c # cs)"
  proof
    assume "prefix pat (c # cs)"
    then obtain b where "c # cs = pat @ b" by (auto simp: prefix_def)
    then have "c # cs = [] @ pat @ b" by simp
    with Cons.prems show False by blast
  qed
  have "\<not> (\<exists>a b. cs = a @ pat @ b)"
  proof
    assume "\<exists>a b. cs = a @ pat @ b"
    then obtain a b where "cs = a @ pat @ b" by blast
    then have "c # cs = (c # a) @ pat @ b" by simp
    with Cons.prems show False by blast
  qed
  with Cons.IH np show ?case by simp
qed

lemma replace_first:
  "s = a @ pat @ b \<Longrightarrow> (\<forall>a' b'. s = a' @ pat @ b' \<longrightarrow> length a \<le> length a')
     \<Longrightarrow> replace pat rep s = a @ rep @ b"
proof (induction a arbitrary: s)
  case Nil
  then show ?case by (simp add: replace_prefix)
next
  case (Cons x a)
  have np: "\<not> prefix pat s"
  proof
    assume "prefix pat s"
    then obtain b' where "s = [] @ pat @ b'" by (auto simp: prefix_def)
    with Cons.prems(2) have "length (x # a) \<le> length ([]::string)" by blast
    then show False by simp
  qed
  have least: "\<forall>a' b'. a @ pat @ b = a' @ pat @ b' \<longrightarrow> length a \<le> length a'"
  proof (intro allI impI)
    fix a' b' assume "a @ pat @ b = a' @ pat @ b'"
    then have "s = (x # a') @ pat @ b'" using Cons.prems(1) by simp
    with Cons.prems(2) have "length (x # a) \<le> length (x # a')" by blast
    then show "length a \<le> length a'" by simp
  qed
  have "replace pat rep (a @ pat @ b) = a @ rep @ b"
    using Cons.IH [OF refl least] .
  with np Cons.prems(1) show ?case by simp
qed

lemma takeWhile_not_sep:
  "sep \<notin> set xs \<Longrightarrow>
     takeWhile (\<lambda>c. c \<noteq> sep) (xs @ ys) = xs @ takeWhile (\<lambda>c. c \<noteq> sep) ys"
  by (induction xs) auto

lemma dropWhile_not_sep:
  "sep \<notin> set xs \<Longrightarrow>
     dropWhile (\<lambda>c. c \<noteq> sep) (xs @ ys) = dropWhile (\<lambda>c. c \<noteq> sep) ys"
  by (induction xs) auto

subsection \<open>Parsing a result locator\<close>

text \<open>
  Claim C8. \<^verbatim>\<open>getResultsStream\<close> strips the scheme prefix \<^verbatim>\<open>s3://\<close> of a locator and
  splits the rest on \<^verbatim>\<open>/\<close>: the bucket is the first segment, the key is the remainder
  joined with \<^verbatim>\<open>/\<close> again. A key is therefore kept as it is, separators included, and
  \<^verbatim>\<open>s3://my-bucket/path/to/object.csv\<close> gives the bucket \<^verbatim>\<open>my-bucket\<close> and the key
  \<^verbatim>\<open>path/to/object.csv\<close>.
\<close>

theorem getResultsStream_locator:
  "getResultsStream_input (''s3://'' @ rest) =
     \<lparr> Bucket = takeWhile (\<lambda>c. c \<noteq> CHR ''/'') rest,
       Key = drop 1 (dropWhile (\<lambda>c. c \<noteq> CHR ''/'') rest) \<rparr>
   \<and> (CHR ''/'' \<notin> set bucket \<longrightarrow>
        getResultsStream_input (''s3://'' @ bucket @ ''/'' @ key) =
          \<lparr> Bucket = bucket, Key = key \<rparr>)
   \<and> getResultsStream_input ''s3://my-bucket/path/to/object.csv'' =
        \<lparr> Bucket = ''my-bucket'', Key = ''path/to/object.csv'' \<rparr>"
proof (intro conjI impI)
  have strip: "replace ''s3://'' [] (''s3://'' @ r) = r" for r
    using replace_prefix [of "''s3://''" "[]" r] by simp
  show "getResultsStream_input (''s3://'' @ rest) =
     \<lparr> Bucket = takeWhile (\<lambda>c. c \<noteq> CHR ''/'') rest,
       Key = drop 1 (dropWhile (\<lambda>c. c \<noteq> CHR ''/'') rest) \<rparr>"
    by (simp only: getResultsStream_input_eq strip)
  show "getResultsStream_input (''s3://'' @ bucket @ ''/'' @ key) =
          \<lparr> Bucket = bucket, Key = key \<rparr>" if "CHR ''/'' \<notin> set bucket"
  proof -
    have "takeWhile (\<lambda>c. c \<noteq> CHR ''/'') (bucket @ ''/'' @ key) = bucket"
      using that by (simp add: takeWhile_not_sep)
    moreover have "dropWhile (\<lambda>c. c \<noteq> CHR ''/'') (bucket @ ''/'' @ key) = ''/'' @ key"
      using that by (simp add: dropWhile_not_sep)
    ultimately show ?thesis
      by (simp only: getResultsStream_input_eq strip) simp
  qed
  show "getResultsStream_input ''s3://my-bucket/path/to/object.csv'' =
        \<lparr> Bucket = ''my-bucket'', Key = ''path/to/object.csv'' \<rparr>"
    by (simp add: getResultsStream_input_def or_string_def)
qed

text \<open>The theorem at a bucket without separator and a key with two of them.\<close>

theorem getResultsStream_locator_witness:
  "CHR ''/'' \<notin> set ''logs''
   \<and> getResultsStream_input (''s3://'' @ ''logs'' @ ''/'' @ ''2020/01/part-0.csv'') =
        \<lparr> Bucket = ''logs'', Key = ''2020/01/part-0.csv'' \<rparr>"
proof -
  have h: "CHR ''/'' \<notin> set ''logs''" by simp
  show ?thesis
    using h getResultsStream_locator [of "[]" "''logs''" "''2020/01/part-0.csv''"] by blast
qed

text \<open>
  Claim C10. The parsing in \<^verbatim>\<open>getResultsStream\<close> yields a bucket and a key for every
  input string; none of its steps can throw. It removes the first occurrence of
  \<^verbatim>\<open>s3://\<close>, wherever it stands, and nothing else; an input without the substring is
  left as it is. When the remaining string is empty the bucket is the empty string, and
  when it holds no \<^verbatim>\<open>/\<close> the key is the empty string.
\<close>

theorem getResultsStream_input_total:
  "getResultsStream_input s3Uri =
     \<lparr> Bucket = takeWhile (\<lambda>c. c \<noteq> CHR ''/'') (replace ''s3://'' [] s3Uri),
       Key = drop 1 (dropWhile (\<lambda>c. c \<noteq> CHR ''/'') (replace ''s3://'' [] s3Uri)) \<rparr>
   \<and> (\<not> (\<exists>a b. s3Uri = a @ ''s3://'' @ b) \<longrightarrow> replace ''s3://'' [] s3Uri = s3Uri)
   \<and> (s3Uri = a @ ''s3://'' @ b
        \<and> (\<forall>a' b'. s3Uri = a' @ ''s3://'' @ b' \<longrightarrow> length a \<le> length a')
        \<longrightarrow> replace ''s3://'' [] s3Uri = a @ b)
   \<and> (replace ''s3://'' [] s3Uri = [] \<longrightarrow> Bucket (getResultsStream_input s3Uri) = [])
   \<and> (CHR ''/'' \<notin> set (replace ''s3://'' [] s3Uri) \<longrightarrow>
        Bucket (getResultsStream_input s3Uri) = replace ''s3://'' [] s3Uri
        \<and> Key (getResultsStream_input s3Uri) = [])"
proof (intro conjI impI)
  show "getResultsStream_input s3Uri =
     \<lparr> Bucket = takeWhile (\<lambda>c. c \<noteq> CHR ''/'') (replace ''s3://'' [] s3Uri),
       Key = drop 1 (dropWhile (\<lambda>c. c \<noteq> CHR ''/'') (replace ''s3://'' [] s3Uri)) \<rparr>"
    by (rule getResultsStream_input_eq)
  show "replace ''s3://'' [] s3Uri = s3Uri" if "\<not> (\<exists>a b. s3Uri = a @ ''s3://'' @ b)"
    using that by (rule replace_absent)
  show "replace ''s3://'' [] s3Uri = a @ b"
    if "s3Uri = a @ ''s3://'' @ b
        \<and> (\<forall>a' b'. s3Uri = a' @ ''s3://'' @ b' \<longrightarrow> length a \<le> length a')"
    using that replace_first [of s3Uri a "''s3://''" b "[]"] by simp
  show "Bucket (getResultsStream_input s3Uri) = []" if "replace ''s3://'' [] s3Uri = []"
    using that by (simp add: getResultsStream_input_eq)
  show "Bucket (getResultsStream_input s3Uri) = replace ''s3://'' [] s3Uri"
    if "CHR ''/'' \<notin> set (replace ''s3://'' [] s3Uri)"
  proof -
    have t: "takeWhile (\<lambda>c. c \<noteq> CHR ''/'') (replace ''s3://'' [] s3Uri)
            = replace ''s3://'' [] s3Uri"
      using that by auto
    show ?thesis by (simp only: getResultsStream_input_eq t) simp
  qed
  show "Key (getResultsStream_input s3Uri) = []"
    if "CHR ''/'' \<notin> set (replace ''s3://'' [] s3Uri)"
  proof -
    have d: "dropWhile (\<lambda>c. c \<noteq> CHR ''/'') (replace ''s3://'' [] s3Uri) = []"
      using that by auto
    show ?thesis by (simp only: getResultsStream_input_eq d) simp
  qed
qed

text \<open>
  The theorem at \<^verbatim>\<open>results\<close> (no scheme, no separator), at \<^verbatim>\<open>xs3://ys3://z\<close> (the scheme
  twice, neither time in front) and at \<^verbatim>\<open>s3://\<close> (nothing left).
\<close>

theorem getResultsStream_input_total_witness:
  "replace ''s3://'' [] ''results'' = ''results''
   \<and> Bucket (getResultsStream_input ''results'') = ''results''
   \<and> Key (getResultsStream_input ''results'') = []
   \<and> replace ''s3://'' [] ''xs3://ys3://z'' = ''xys3://z''
   \<and> replace ''s3://'' [] ''s3://'' = []
   \<and> Bucket (getResultsStream_input ''s3://'') = []"
proof -
  have absent: "\<not> (\<exists>a b. ''results'' = a @ ''s3://'' @ b)"
  proof
    assume "\<exists>a b. ''results'' = a @ ''s3://'' @ b"
    then obtain a b where eq: "''results'' = a @ ''s3://'' @ b" by blast
    have "CHR '':'' \<in> set (a @ ''s3://'' @ b)" by simp
    then have "CHR '':'' \<in> set ''results''" by (simp only: eq [symmetric])
    then show False by simp
  qed
  have r1: "replace ''s3://'' [] ''results'' = ''results''"
    using absent getResultsStream_input_total [of "''results''"] by blast
  have noslash: "CHR ''/'' \<notin> set (replace ''s3://'' [] ''results'')"
    by (simp only: r1) simp
  have r2: "Bucket (getResultsStream_input ''results'') = replace ''s3://'' [] ''results''
            \<and> Key (getResultsStream_input ''results'') = []"
    using noslash getResultsStream_input_total [of "''results''"] by blast
  have first: "''xs3://ys3://z'' = ''x'' @ ''s3://'' @ ''ys3://z''
     \<and> (\<forall>a' b'. ''xs3://ys3://z'' = a' @ ''s3://'' @ b' \<longrightarrow> length ''x'' \<le> length a')"
  proof (intro conjI allI impI)
    show "''xs3://ys3://z'' = ''x'' @ ''s3://'' @ ''ys3://z''" by simp
    fix a' :: string and b' :: string
    assume "''xs3://ys3://z'' = a' @ ''s3://'' @ b'"
    then have "a' \<noteq> []" by auto
    then show "length ''x'' \<le> length a'" by (cases a') simp_all
  qed
  have r3: "replace ''s3://'' [] ''xs3://ys3://z'' = ''x'' @ ''ys3://z''"
    using first getResultsStream_input_total [of "''xs3://ys3://z''" "''x''" "''ys3://z''"]
    by blast
  have only: "''s3://'' = [] @ ''s3://'' @ []
     \<and> (\<forall>a' b'. ''s3://'' = a' @ ''s3://'' @ b' \<longrightarrow> length ([]::string) \<le> length a')"
    by simp
  have r4: "replace ''s3://'' [] ''s3://'' = [] @ []"
    using only getResultsStream_input_total [of "''s3://''" "[]" "[]"] by blast
  then have r4': "replace ''s3://'' [] ''s3://'' = []" by simp
  have r5: "Bucket (getResultsStream_input ''s3://'') = []"
    using r4' getResultsStream_input_total [of "''s3://''"] by blast
  from r1 r2 r3 r4' r5 show ?thesis by simp
qed

subsection \<open>Retry eligibility in the three loops\<close>










subsection \<open>Classification of the remote state\<close>

text \<open>
  The callback that \<^verbatim>\<open>checkQuery\<close> registers on the promise of \<^verbatim>\<open>getQueryExecution\<close>
  classifies every raw state string of the metadata it is given: \<^verbatim>\<open>QUEUED\<close> and
  \<^verbatim>\<open>RUNNING\<close> resolve to false, \<^verbatim>\<open>SUCCEEDED\<close> resolves to true, \<^verbatim>\<open>FAILED\<close> rejects with
  the \<^verbatim>\<open>StateChangeReason\<close> of the service or, when that is absent or empty, with
  \<^verbatim>\<open>FAILED: Execution Error\<close>, \<^verbatim>\<open>CANCELLED\<close> rejects with \<^verbatim>\<open>FAILED: Query CANCELLED\<close>,
  and any other string rejects with \<^verbatim>\<open>FAILED: UnKnown State\<close> followed by that string.
\<close>

lemma checkQuery_on_Fulfilled:
  "checkQuery_on
     (Fulfilled (Some \<lparr> Status = Some \<lparr> State = Some state, StateChangeReason = reason \<rparr> \<rparr>)) =
     (if state = ''QUEUED'' \<or> state = ''RUNNING'' then Fulfilled False
      else if state = ''SUCCEEDED'' then Fulfilled True
      else if state = ''FAILED'' then
        Rejected (Err False
          (case reason of
             None \<Rightarrow> ''FAILED: Execution Error''
           | Some r \<Rightarrow> if r = [] then ''FAILED: Execution Error'' else r))
      else if state = ''CANCELLED'' then Rejected (Err False ''FAILED: Query CANCELLED'')
      else Rejected (Err False (''FAILED: UnKnown State '' @ state)))"
  by (simp add: checkQuery_on_def checkQuery_then_def checkQuery_switch_def Let_def
        resolve_def reject_def or_string_def template_def split: option.splits)

text \<open>
  Claim C5 states that \<^verbatim>\<open>checkQuery\<close> resolves to false for \<^verbatim>\<open>QUEUED\<close> and
  \<^verbatim>\<open>RUNNING\<close>, resolves to true for \<^verbatim>\<open>SUCCEEDED\<close>, and rejects with a message for
  \<^verbatim>\<open>FAILED\<close>, for \<^verbatim>\<open>CANCELLED\<close> and for every other state. Here the service reports
  each of these states at the first call: \<^verbatim>\<open>getQueryExecution\<close> receives the metadata
  inside \<^verbatim>\<open>loopFunc\<close> and leaves its own promise pending, so the callback of
  \<^verbatim>\<open>checkQuery\<close> never runs and the promise of \<^verbatim>\<open>checkQuery\<close> is pending for every
  state.
\<close>

theorem checkQuery_never_classifies:
  "getQueryExecution (reporting ''SUCCEEDED'' None) ''q-1'' bucketOnly =
     \<lparr> promise = Pending,
       invocations =
         [Returned (Some \<lparr> Status = Some \<lparr> State = Some ''SUCCEEDED'',
                                          StateChangeReason = None \<rparr> \<rparr>)] \<rparr>
   \<and> checkQuery (reporting ''SUCCEEDED'' None) ''q-1'' bucketOnly = Pending
   \<and> checkQuery (reporting ''QUEUED'' None) ''q-1'' bucketOnly = Pending
   \<and> checkQuery (reporting ''RUNNING'' None) ''q-1'' bucketOnly = Pending
   \<and> checkQuery (reporting ''FAILED'' (Some ''SYNTAX_ERROR'')) ''q-1'' bucketOnly = Pending
   \<and> checkQuery (reporting ''CANCELLED'' None) ''q-1'' bucketOnly = Pending
   \<and> checkQuery (reporting ''PAUSED'' None) ''q-1'' bucketOnly = Pending"
  by code_simp

subsection \<open>Construction of a client\<close>

text \<open>
  Claim C7. \<^verbatim>\<open>createClient\<close> throws before it constructs anything when the client
  configuration is missing or its \<^verbatim>\<open>bucketUri\<close> is missing or empty, and likewise when
  the AWS configuration is missing or its \<^verbatim>\<open>region\<close> is missing or empty; in every other
  case it returns the client built from the two configurations.
\<close>

theorem createClient_fails_fast:
  "((clientConfig = None \<or> (\<exists>cc. clientConfig = Some cc \<and> absent_or_empty (bucketUri cc)))
      \<longrightarrow> createClient newAthenaClient clientConfig awsConfig
            = (Inl (Err False ''bucket uri required''), []))
   \<and> ((awsConfig = None \<or> (\<exists>ac. awsConfig = Some ac \<and> absent_or_empty (region ac)))
      \<longrightarrow> (\<exists>e. createClient newAthenaClient clientConfig awsConfig = (Inl e, [])))
   \<and> (\<forall>cc ac. clientConfig = Some cc \<and> awsConfig = Some ac
         \<and> \<not> absent_or_empty (bucketUri cc) \<and> \<not> absent_or_empty (region ac)
      \<longrightarrow> fst (createClient newAthenaClient clientConfig awsConfig)
            = Inr (newAthenaClient ac cc))"
  by (auto simp: createClient_def absent_or_empty_def Let_def split: option.splits)

text \<open>The theorem at an empty bucket URI, at a missing AWS configuration, and at a complete pair.\<close>

theorem createClient_fails_fast_witness:
  "createClient (\<lambda>ac cc. (ac, cc)) (Some (bucketOnly\<lparr>bucketUri := Some []\<rparr>))
      (Some \<lparr> region = Some ''eu-west-1'', accessKeyId = None, secretAccessKey = None \<rparr>)
     = (Inl (Err False ''bucket uri required''), [])
   \<and> (\<exists>e. createClient (\<lambda>ac cc. (ac, cc)) (Some bucketOnly) None = (Inl e, []))
   \<and> fst (createClient (\<lambda>ac cc. (ac, cc)) (Some bucketOnly)
        (Some \<lparr> region = Some ''eu-west-1'', accessKeyId = None, secretAccessKey = None \<rparr>))
     = Inr (\<lparr> region = Some ''eu-west-1'', accessKeyId = None, secretAccessKey = None \<rparr>,
            bucketOnly)"
proof -
  let ?new = "\<lambda>(ac::AwsConfig) (cc::AthenaRequestConfig). (ac, cc)"
  let ?aws = "\<lparr> region = Some ''eu-west-1'', accessKeyId = None, secretAccessKey = None \<rparr>"
  have h1: "absent_or_empty (bucketUri (bucketOnly\<lparr>bucketUri := Some []\<rparr>))"
    by (simp add: absent_or_empty_def)
  have r1: "createClient ?new (Some (bucketOnly\<lparr>bucketUri := Some []\<rparr>)) (Some ?aws)
     = (Inl (Err False ''bucket uri required''), [])"
    using h1 createClient_fails_fast
      [of "Some (bucketOnly\<lparr>bucketUri := Some []\<rparr>)" ?new "Some ?aws"]
    by blast
  have r2: "\<exists>e. createClient ?new (Some bucketOnly) None = (Inl e, [])"
    using createClient_fails_fast [of "Some bucketOnly" ?new None] by blast
  have h3: "\<not> absent_or_empty (bucketUri bucketOnly) \<and> \<not> absent_or_empty (region ?aws)"
    by (simp add: absent_or_empty_def bucketOnly_def)
  have r3: "fst (createClient ?new (Some bucketOnly) (Some ?aws)) = Inr (?aws, bucketOnly)"
    using h3 createClient_fails_fast [of "Some bucketOnly" ?new "Some ?aws"] by blast
  from r1 r2 r3 show ?thesis by blast
qed

subsection \<open>Defaults\<close>

text \<open>
  Claim C9. A configuration that leaves a field unspecified gets, at the time of the call,
  the base wait 200, the maximal wait 10000, the maximal number of attempts 10, the
  database \<^verbatim>\<open>default\<close> and the work group \<^verbatim>\<open>primary\<close>; the last two are written into
  the \<^verbatim>\<open>StartQueryExecutionCommand\<close> that \<^verbatim>\<open>startQuery\<close> sends.
\<close>

theorem defaults_when_unspecified:
  "(baseRetryWait config = None \<longrightarrow>
      baseWaitMs config = 200
      \<and> startQuery_wait config n = min (200 * 2 ^ n) (maxWaitMs config))
   \<and> (retryWaitMax config = None \<longrightarrow>
      maxWaitMs config = 10000
      \<and> startQuery_wait config n = min (baseWaitMs config * 2 ^ n) 10000)
   \<and> (retryCountMax config = None \<longrightarrow>
      maxAttempts config = 10 \<and> retryLimit config = 10
      \<and> (canRetry n config \<longleftrightarrow> n < 10))
   \<and> (database config = None \<longrightarrow>
      Database (QueryContext (startQuery_params query config)) = ''default'')
   \<and> (workGroup config = None \<longrightarrow>
      WorkGroup (startQuery_params query config) = ''primary'')
   \<and> invocations (startQuery athena query config) =
        startQuery_loopFunc config
          (athena (StartQueryExecutionCommand (startQuery_params query config))) 0"
  by (auto simp: baseWaitMs_def maxWaitMs_def maxAttempts_def retryLimit_def
        startQuery_wait_def canRetry_def
        startQuery_params_def startQuery_def or_number_def or_string_def Let_def
        defaultBaseRetryWait_def defaultRetryWaitMax_def defaultRetryCountMax_def)

text \<open>The theorem at the configuration that sets the output location only.\<close>

theorem defaults_when_unspecified_witness:
  "baseRetryWait bucketOnly = None \<and> retryWaitMax bucketOnly = None
   \<and> retryCountMax bucketOnly = None \<and> database bucketOnly = None
   \<and> workGroup bucketOnly = None
   \<and> startQuery_wait bucketOnly 5 = 6400
   \<and> canRetry 9 bucketOnly \<and> \<not> canRetry 10 bucketOnly
   \<and> Database (QueryContext (startQuery_params ''SELECT 1'' bucketOnly)) = ''default''
   \<and> WorkGroup (startQuery_params ''SELECT 1'' bucketOnly) = ''primary''"
proof -
  have h: "baseRetryWait bucketOnly = None" "retryWaitMax bucketOnly = None"
    "retryCountMax bucketOnly = None" "database bucketOnly = None"
    "workGroup bucketOnly = None"
    by (simp_all add: bucketOnly_def)
  have w: "startQuery_wait bucketOnly 5 = min (200 * 2 ^ 5) (maxWaitMs bucketOnly)"
    "maxWaitMs bucketOnly = 10000"
    using h defaults_when_unspecified [of bucketOnly 5] by blast+
  have c: "canRetry 9 bucketOnly \<longleftrightarrow> (9::nat) < 10" "canRetry 10 bucketOnly \<longleftrightarrow> (10::nat) < 10"
    using h defaults_when_unspecified [of bucketOnly 9]
      defaults_when_unspecified [of bucketOnly 10] by blast+
  have p: "Database (QueryContext (startQuery_params ''SELECT 1'' bucketOnly)) = ''default''"
    "WorkGroup (startQuery_params ''SELECT 1'' bucketOnly) = ''primary''"
    using h defaults_when_unspecified [of bucketOnly 0 "''SELECT 1''"] by blast+
  from h w c p show ?thesis by simp
qed

subsection \<open>Settlement of the returned promises\<close>

text \<open>
  The promises returned by \<^verbatim>\<open>startQuery\<close>, \<^verbatim>\<open>stopQuery\<close> and \<^verbatim>\<open>getQueryExecution\<close>
  stay pending whatever the service answers.
\<close>

lemma startQuery_never_settles: "promise (startQuery athena query config) = Pending"
  by (simp add: startQuery_def Let_def)

lemma stopQuery_never_settles: "promise (stopQuery athena queryId config) = Pending"
  by (simp add: stopQuery_def)

lemma getQueryExecution_never_settles:
  "promise (getQueryExecution athena queryId config) = Pending"
  by (simp add: getQueryExecution_def)

text \<open>
  \<^verbatim>\<open>checkQuery\<close> waits for the promise of \<^verbatim>\<open>getQueryExecution\<close>, so it inherits this:
  its callbacks are never run.
\<close>

lemma checkQuery_never_settles: "checkQuery athena queryId config = Pending"
  by (simp add: checkQuery_def checkQuery_on_def getQueryExecution_never_settles)

text \<open>
  Claim C1 states that the promise of \<^verbatim>\<open>startQuery\<close> resolves with the execution id once
  the remote call has succeeded, possibly after retries. Here the service accepts the first
  call, and then the third call after two throttled ones with a base wait of 10 ms: the
  invocation of \<^verbatim>\<open>loopFunc\<close> that made the successful call returns the id, after waits of
  10 and 20 ms in the second run, and the promise of \<^verbatim>\<open>startQuery\<close> is still pending.
\<close>

theorem startQuery_success_never_resolves:
  "startQuery succeeding ''SELECT 1'' bucketOnly =
     \<lparr> promise = Pending, invocations = [Returned (Some ''q-1'')] \<rparr>
   \<and> startQuery (throttling 2) ''SELECT 1'' (bucketOnly\<lparr>baseRetryWait := Some 10\<rparr>) =
     \<lparr> promise = Pending, invocations = [Timer (Num 10), Timer (Num 20), Returned (Some ''q-1'')] \<rparr>"
  by code_simp

text \<open>
  Claim C2 states that the promises of \<^verbatim>\<open>startQuery\<close>, \<^verbatim>\<open>stopQuery\<close> and
  \<^verbatim>\<open>getQueryExecution\<close> reject with the error of a remote call that is not retried. Here
  the service refuses with an error that is not retryable, and throttles until the
  configured two retries are used up: the error is thrown inside the last invocation of
  \<^verbatim>\<open>loopFunc\<close>, and the returned promise is still pending.
\<close>

theorem remote_failure_never_rejects:
  "startQuery denying ''SELECT 1'' bucketOnly =
     \<lparr> promise = Pending, invocations = [Threw (Err False ''Access denied'')] \<rparr>
   \<and> stopQuery denying ''q-1'' bucketOnly =
     \<lparr> promise = Pending, invocations = [Threw (Err False ''Access denied'')] \<rparr>
   \<and> getQueryExecution denying ''q-1'' bucketOnly =
     \<lparr> promise = Pending, invocations = [Threw (Err False ''Access denied'')] \<rparr>
   \<and> startQuery (throttling 3) ''SELECT 1'' (bucketOnly\<lparr>retryCountMax := Some 2\<rparr>) =
     \<lparr> promise = Pending,
       invocations = [Timer (Num 200), Timer (Num 400), Threw (Err True ''Rate exceeded'')] \<rparr>"
  by code_simp

subsection \<open>Wait before a retry\<close>

text \<open>
  On the submit path the wait doubles from the base wait and is capped by the maximal
  wait; it never decreases from one retry to the next when the base wait is not negative.
\<close>

lemma startQuery_wait_doubling:
  "startQuery_wait config n = min (baseWaitMs config * 2 ^ n) (maxWaitMs config)"
  by (simp add: startQuery_wait_def baseWaitMs_def maxWaitMs_def Let_def)

lemma startQuery_wait_capped: "startQuery_wait config n \<le> maxWaitMs config"
  by (simp add: startQuery_wait_doubling)

lemma startQuery_wait_mono:
  assumes "0 \<le> baseWaitMs config" and "m \<le> n"
  shows "startQuery_wait config m \<le> startQuery_wait config n"
proof -
  have "(2::int) ^ m \<le> 2 ^ n"
    using assms(2) by (simp add: power_increasing)
  then have "baseWaitMs config * 2 ^ m \<le> baseWaitMs config * 2 ^ n"
    using assms(1) by (rule mult_left_mono)
  then show ?thesis
    by (simp add: startQuery_wait_doubling min_le_iff_disj)
qed

text \<open>
  Claim C3 states that the wait before retry \<open>n + 1\<close> is the minimum of the base wait
  times \<open>2 ^ n\<close> and the maximal wait on the submit path and on the poll path. On the
  poll path \<^verbatim>\<open>getQueryExecution\<close> raises the base wait to the power \<open>n\<close> instead: with
  the defaults the first retry is scheduled after 1 ms, where the formula gives 200 ms.
\<close>

theorem getQueryExecution_wait_not_doubling:
  "getQueryExecution (throttling 1) ''q-1'' bucketOnly =
     \<lparr> promise = Pending, invocations = [Timer (Num 1), Returned None] \<rparr>
   \<and> getQueryExecution_wait bucketOnly 0 = Num 1
   \<and> min (baseWaitMs bucketOnly * 2 ^ 0) (maxWaitMs bucketOnly) = 200"
  by code_simp

text \<open>
  Claim C4 states that, within one operation, the wait never decreases and never exceeds the
  maximal wait (10000 by default). With the defaults, \<^verbatim>\<open>stopQuery\<close> and
  \<^verbatim>\<open>getQueryExecution\<close> schedule their third retry after 40000 ms.
\<close>

theorem stop_and_metadata_wait_exceed_cap:
  "stopQuery (throttling 3) ''q-1'' bucketOnly =
     \<lparr> promise = Pending, invocations =
         [Timer (Num 1), Timer (Num 200), Timer (Num 40000), Returned ()] \<rparr>
   \<and> getQueryExecution (throttling 3) ''q-1'' bucketOnly =
     \<lparr> promise = Pending, invocations =
         [Timer (Num 1), Timer (Num 200), Timer (Num 40000), Returned None] \<rparr>
   \<and> maxWaitMs bucketOnly = 10000"
  by code_simp

end
